theory Spec2Isabelle
  imports Main "HOL-Library.Word"
begin

section \<open>FXSystem.h: the interface to the effects system\<close>

subsection \<open>Primitive types\<close>

text \<open>
  \<^verbatim>\<open>int32\<close> is a 32-bit machine word. The two \<^verbatim>\<open>float\<close> console variables are
  only stored, never read by the functions of this header, and are carried as
  their 32-bit pattern. An \<^verbatim>\<open>FName\<close> is a string, a shader platform is the
  value of the enumeration \<^verbatim>\<open>EShaderPlatform\<close>, and a pointer is an optional
  address, \<^verbatim>\<open>nullptr\<close> being \<open>None\<close>.
\<close>

type_synonym int32 = "32 word"
type_synonym float32 = "32 word"
type_synonym FName = string
type_synonym EShaderPlatform = nat
type_synonym addr = nat

text \<open>
  \<^verbatim>\<open>ERHIFeatureLevel::Type\<close>, \<^verbatim>\<open>EPixelFormat\<close> and \<^verbatim>\<open>FPixelFormatInfo\<close> are
  declared by the RHI headers that \<^verbatim>\<open>RenderUtils.h\<close> pulls in. This header
  names one enumerator of each enumeration and one field of the format
  description; every other enumerator is kept by its numeric value.
\<close>

datatype ERHIFeatureLevel = ES3_1 | OtherFeatureLevel nat

datatype EPixelFormat = PF_G32R32F | OtherPixelFormat nat

record FPixelFormatInfo =
  Supported :: bool

subsection \<open>Global state\<close>

text \<open>The variables of \<^verbatim>\<open>namespace FXConsoleVariables\<close>, in declaration order.\<close>

record FXConsoleVariables =
  VisualizeGPUSimulation :: int32
  bAllowGPUSorting :: int32
  bAllowCulling :: int32
  bFreezeGPUSimulation :: int32
  bFreezeParticleSimulation :: int32
  bAllowAsyncTick :: int32
  ParticleSlackGPU :: float32
  MaxParticleTilePreAllocation :: int32
  MaxCPUParticlesPerEmitter :: int32
  MaxGPUParticlesSpawnedPerFrame :: int32
  GPUSpawnWarningThreshold :: int32
  GPUCollisionDepthBounds :: float32
  TestGPUSort :: int32
  bAllowGPUParticles :: int32

text \<open>The RHI capability globals that \<^verbatim>\<open>RHISupportsGPUParticles\<close> reads.\<close>

record RHIGlobals =
  GSupportsMultipleRenderTargets :: bool
  GSupportsWideMRT :: bool
  GPixelFormats :: "EPixelFormat \<Rightarrow> FPixelFormatInfo"
  GSupportsTexture3D :: bool
  GSupportsResourceView :: bool

text \<open>
  The static platform queries \<^verbatim>\<open>IsFeatureLevelSupported\<close> and \<^verbatim>\<open>IsPCPlatform\<close>
  are defined by the RHI, outside this header. They are taken as parameters:
  functions of their arguments alone.
\<close>

record PlatformQueries =
  IsFeatureLevelSupported :: "EShaderPlatform \<Rightarrow> ERHIFeatureLevel \<Rightarrow> bool"
  IsPCPlatform :: "EShaderPlatform \<Rightarrow> bool"

text \<open>
  \<^verbatim>\<open>DECLARE_DELEGATE_RetVal_ThreeParams(FFXSystemInterface*,
  FCreateCustomFXSystemDelegate, ERHIFeatureLevel::Type, EShaderPlatform,
  FGPUSortManager*)\<close>
\<close>

type_synonym FCreateCustomFXSystemDelegate =
  "ERHIFeatureLevel \<Rightarrow> EShaderPlatform \<Rightarrow> addr option \<Rightarrow> addr option"

text \<open>
  \<^verbatim>\<open>class FFXSystemInterface\<close> has one data member, the private
  \<^verbatim>\<open>bIsPendingKill\<close>. The class is abstract: the members of the subclass that
  an instance really has are the extension of the record.
\<close>

record FFXSystemInterface =
  bIsPendingKill :: bool

text \<open>
  The state a call runs in: the console variables, the RHI globals, the static
  member \<^verbatim>\<open>CreateCustomFXDelegates\<close> (a \<^verbatim>\<open>TMap\<close>, kept as the list of its
  pairs) and the instance that \<^verbatim>\<open>this\<close> points to.
\<close>

record 'a fx_state =
  cvars :: FXConsoleVariables
  rhi :: RHIGlobals
  CreateCustomFXDelegates :: "(FName \<times> FCreateCustomFXSystemDelegate) list"
  self :: "'a FFXSystemInterface_scheme"

subsection \<open>Calls\<close>

text \<open>
  A call takes the state and returns its result with the state it leaves.
  \<open>rd\<close> reads the state; \<open>land\<close> and \<open>lor\<close> are the operators \<^verbatim>\<open>&&\<close> and
  \<^verbatim>\<open>||\<close> of C++: the left operand is evaluated first and the right one only
  when the left one does not decide the result.
\<close>

type_synonym ('s, 'r) call = "'s \<Rightarrow> 'r \<times> 's"

definition rd :: "('s \<Rightarrow> 'r) \<Rightarrow> ('s, 'r) call" where
  "rd f = (\<lambda>s. (f s, s))"

definition land :: "('s, bool) call \<Rightarrow> ('s, bool) call \<Rightarrow> ('s, bool) call" where
  "land a b = (\<lambda>s. case a s of (x, s') \<Rightarrow> if x then b s' else (False, s'))"

definition lor :: "('s, bool) call \<Rightarrow> ('s, bool) call \<Rightarrow> ('s, bool) call" where
  "lor a b = (\<lambda>s. case a s of (x, s') \<Rightarrow> if x then (True, s') else b s')"

subsection \<open>The capability gate\<close>

text \<open>
  \<^verbatim>\<open>return IsFeatureLevelSupported(Platform, ERHIFeatureLevel::ES3_1)
  || IsPCPlatform(Platform);\<close>
\<close>

definition SupportsGPUParticles ::
  "PlatformQueries \<Rightarrow> EShaderPlatform \<Rightarrow> ('a fx_state, bool) call" where
  "SupportsGPUParticles Q Platform =
     lor (rd (\<lambda>s. IsFeatureLevelSupported Q Platform ES3_1))
         (rd (\<lambda>s. IsPCPlatform Q Platform))"

text \<open>
  \<^verbatim>\<open>return FXConsoleVariables::bAllowGPUParticles
  && GSupportsMultipleRenderTargets && GSupportsWideMRT
  && GPixelFormats[PF_G32R32F].Supported && GSupportsTexture3D
  && GSupportsResourceView;\<close>
  The operator associates to the left, and the \<^verbatim>\<open>int32\<close> switch converts to
  \<^verbatim>\<open>bool\<close> as "not zero".
\<close>

definition RHISupportsGPUParticles :: "('a fx_state, bool) call" where
  "RHISupportsGPUParticles =
     land (land (land (land (land
       (rd (\<lambda>s. bAllowGPUParticles (cvars s) \<noteq> 0))
       (rd (\<lambda>s. GSupportsMultipleRenderTargets (rhi s))))
       (rd (\<lambda>s. GSupportsWideMRT (rhi s))))
       (rd (\<lambda>s. Supported (GPixelFormats (rhi s) PF_G32R32F))))
       (rd (\<lambda>s. GSupportsTexture3D (rhi s))))
       (rd (\<lambda>s. GSupportsResourceView (rhi s)))"

subsection \<open>The member functions of \<^verbatim>\<open>FFXSystemInterface\<close> that have a body\<close>


text \<open>\<^verbatim>\<open>virtual FFXSystemInterface* GetInterface(const FName& InName) { return nullptr; }\<close>\<close>

definition GetInterface :: "FName \<Rightarrow> ('a fx_state, addr option) call" where
  "GetInterface InName = (\<lambda>s. (None, s))"

text \<open>\<^verbatim>\<open>virtual void OnDestroy() { bIsPendingKill = true; }\<close>\<close>

definition OnDestroy :: "('a fx_state, unit) call" where
  "OnDestroy = (\<lambda>s. ((), s\<lparr>self := (self s)\<lparr>bIsPendingKill := True\<rparr>\<rparr>))"

text \<open>\<^verbatim>\<open>virtual void DestroyGPUSimulation() { }\<close>\<close>

definition DestroyGPUSimulation :: "('a fx_state, unit) call" where
  "DestroyGPUSimulation = (\<lambda>s. ((), s))"

text \<open>\<^verbatim>\<open>bool IsPendingKill() const { return bIsPendingKill; }\<close>\<close>

definition IsPendingKill :: "('a fx_state, bool) call" where
  "IsPendingKill = rd (\<lambda>s. bIsPendingKill (self s))"

subsection \<open>The implicitly declared members of \<^verbatim>\<open>FFXSystemInterface\<close>\<close>



subsection \<open>The lifetime of an instance\<close>






subsection \<open>Creation\<close>

text \<open>
  Modelled from the spec: the body of \<^verbatim>\<open>FFXSystemInterface::Create\<close>, which
  this header only declares. "Selects, by feature level/platform and optionally
  by a registered custom factory, which concrete implementation to build; fails
  by returning a disabled/no-op instance if the platform cannot support any
  implementation (never null)"; "if a custom factory is registered for the
  requested name/platform, use it; otherwise construct the default built-in
  implementation gated by" the capability gate. A registered delegate that
  returns \<^verbatim>\<open>nullptr\<close> for the feature level and platform does not match
  them. The result is a pointer to the system built, \<open>None\<close> being
  \<^verbatim>\<open>nullptr\<close>.
\<close>

datatype fx_system = CustomFXSystem addr | DefaultFXSystem | DisabledFXSystem

fun custom_system ::
  "(FName \<times> FCreateCustomFXSystemDelegate) list \<Rightarrow>
   ERHIFeatureLevel \<Rightarrow> EShaderPlatform \<Rightarrow> addr option \<Rightarrow> addr option" where
  "custom_system [] fl sp mgr = None"
| "custom_system ((InterfaceName, CreateDelegate) # ds) fl sp mgr =
     (case CreateDelegate fl sp mgr of
        Some p \<Rightarrow> Some p
      | None \<Rightarrow> custom_system ds fl sp mgr)"

definition Create ::
  "PlatformQueries \<Rightarrow> addr option \<Rightarrow> ERHIFeatureLevel \<Rightarrow> EShaderPlatform \<Rightarrow>
   ('a fx_state, fx_system option) call" where
  "Create Q GPUSortManager InFeatureLevel InShaderPlatform =
     (\<lambda>s. case custom_system (CreateCustomFXDelegates s)
                  InFeatureLevel InShaderPlatform GPUSortManager of
             Some p \<Rightarrow> (Some (CustomFXSystem p), s)
           | None \<Rightarrow>
               (case land (SupportsGPUParticles Q InShaderPlatform)
                          RHISupportsGPUParticles s of
                  (supported, s') \<Rightarrow>
                    if supported then (Some DefaultFXSystem, s')
                    else (Some DisabledFXSystem, s')))"

subsection \<open>Concrete states\<close>

definition default_cvars :: FXConsoleVariables where
  "default_cvars =
     \<lparr>VisualizeGPUSimulation = 0, bAllowGPUSorting = 1, bAllowCulling = 1,
      bFreezeGPUSimulation = 0, bFreezeParticleSimulation = 0,
      bAllowAsyncTick = 0, ParticleSlackGPU = 0,
      MaxParticleTilePreAllocation = 100, MaxCPUParticlesPerEmitter = 1000,
      MaxGPUParticlesSpawnedPerFrame = 1048576,
      GPUSpawnWarningThreshold = 20000, GPUCollisionDepthBounds = 0,
      TestGPUSort = 0, bAllowGPUParticles = 1\<rparr>"

definition full_rhi :: RHIGlobals where
  "full_rhi =
     \<lparr>GSupportsMultipleRenderTargets = True, GSupportsWideMRT = True,
      GPixelFormats = (\<lambda>f. \<lparr>Supported = True\<rparr>),
      GSupportsTexture3D = True, GSupportsResourceView = True\<rparr>"

definition desktop_only :: PlatformQueries where
  "desktop_only =
     \<lparr>IsFeatureLevelSupported = (\<lambda>p l. False), IsPCPlatform = (\<lambda>p. p = 0)\<rparr>"

definition fresh_state :: "nat fx_state" where
  "fresh_state =
     \<lparr>cvars = default_cvars, rhi = full_rhi, CreateCustomFXDelegates = [],
      self = \<lparr>bIsPendingKill = False, \<dots> = 0\<rparr>\<rparr>"

section \<open>Properties of the capability gate\<close>

lemma fst_rd: "fst (rd f s) = f s"
  by (simp add: rd_def)

lemma snd_rd: "snd (rd f s) = s"
  by (simp add: rd_def)

lemma fst_land_rd: "snd (a s) = s \<Longrightarrow> fst (land a (rd f) s) = (fst (a s) \<and> f s)"
  by (cases "a s") (simp add: land_def rd_def)

lemma snd_land_rd: "snd (a s) = s \<Longrightarrow> snd (land a (rd f) s) = s"
  by (cases "a s") (simp add: land_def rd_def)

lemma fst_lor_rd: "snd (a s) = s \<Longrightarrow> fst (lor a (rd f) s) = (fst (a s) \<or> f s)"
  by (cases "a s") (simp add: lor_def rd_def)

lemma snd_lor_rd: "snd (a s) = s \<Longrightarrow> snd (lor a (rd f) s) = s"
  by (cases "a s") (simp add: lor_def rd_def)

lemma RHISupportsGPUParticles_state: "snd (RHISupportsGPUParticles s) = s"
  by (simp add: RHISupportsGPUParticles_def snd_land_rd snd_rd)

lemma RHISupportsGPUParticles_value:
  "fst (RHISupportsGPUParticles s) =
     (bAllowGPUParticles (cvars s) \<noteq> 0
      \<and> GSupportsMultipleRenderTargets (rhi s)
      \<and> GSupportsWideMRT (rhi s)
      \<and> Supported (GPixelFormats (rhi s) PF_G32R32F)
      \<and> GSupportsTexture3D (rhi s)
      \<and> GSupportsResourceView (rhi s))"
  by (simp add: RHISupportsGPUParticles_def fst_land_rd snd_land_rd fst_rd snd_rd)

lemma SupportsGPUParticles_state: "snd (SupportsGPUParticles Q Platform s) = s"
  by (simp add: SupportsGPUParticles_def snd_lor_rd snd_rd)

lemma SupportsGPUParticles_value:
  "fst (SupportsGPUParticles Q Platform s) =
     (IsFeatureLevelSupported Q Platform ES3_1 \<or> IsPCPlatform Q Platform)"
  by (simp add: SupportsGPUParticles_def fst_lor_rd snd_rd fst_rd)

text \<open>
  C1. \<^verbatim>\<open>RHISupportsGPUParticles()\<close> returns true exactly when the switch
  \<^verbatim>\<open>FXConsoleVariables::bAllowGPUParticles\<close> is set and the RHI supports
  multiple render targets, wide MRT, the pixel format \<^verbatim>\<open>PF_G32R32F\<close>, 3-D
  textures and resource views.
\<close>

theorem RHISupportsGPUParticles_exactly_when:
  "fst (RHISupportsGPUParticles s) =
     (bAllowGPUParticles (cvars s) \<noteq> 0
      \<and> GSupportsMultipleRenderTargets (rhi s)
      \<and> GSupportsWideMRT (rhi s)
      \<and> Supported (GPixelFormats (rhi s) PF_G32R32F)
      \<and> GSupportsTexture3D (rhi s)
      \<and> GSupportsResourceView (rhi s))"
  by (rule RHISupportsGPUParticles_value)

text \<open>
  C2. Whatever the other capability flags are, \<^verbatim>\<open>RHISupportsGPUParticles()\<close>
  returns false when \<^verbatim>\<open>FXConsoleVariables::bAllowGPUParticles\<close> is false
  (zero).
\<close>

theorem RHISupportsGPUParticles_switch_off:
  "bAllowGPUParticles (cvars s) = 0 \<Longrightarrow> \<not> fst (RHISupportsGPUParticles s)"
  by (simp add: RHISupportsGPUParticles_value)

theorem RHISupportsGPUParticles_switch_off_witness:
  "bAllowGPUParticles
     (cvars (fresh_state\<lparr>cvars := default_cvars\<lparr>bAllowGPUParticles := 0\<rparr>\<rparr>)) = 0
   \<and> GSupportsMultipleRenderTargets (rhi fresh_state)
   \<and> GSupportsWideMRT (rhi fresh_state)
   \<and> Supported (GPixelFormats (rhi fresh_state) PF_G32R32F)
   \<and> GSupportsTexture3D (rhi fresh_state)
   \<and> GSupportsResourceView (rhi fresh_state)
   \<and> \<not> fst (RHISupportsGPUParticles
         (fresh_state\<lparr>cvars := default_cvars\<lparr>bAllowGPUParticles := 0\<rparr>\<rparr>))"
  using RHISupportsGPUParticles_switch_off
    [of "fresh_state\<lparr>cvars := default_cvars\<lparr>bAllowGPUParticles := 0\<rparr>\<rparr>"]
  by (simp add: fresh_state_def full_rhi_def)

text \<open>
  C3. \<^verbatim>\<open>SupportsGPUParticles(Platform)\<close> returns true if and only if the
  platform supports feature level ES3_1 or is a PC platform, and its result is
  the same in any two states: it depends on the platform alone.
\<close>

theorem SupportsGPUParticles_iff:
  "fst (SupportsGPUParticles Q Platform s) =
     (IsFeatureLevelSupported Q Platform ES3_1 \<or> IsPCPlatform Q Platform)
   \<and> fst (SupportsGPUParticles Q Platform s) = fst (SupportsGPUParticles Q Platform s')"
  by (simp add: SupportsGPUParticles_value)

text \<open>
  C4. In a state without 3-D texture support, on a PC platform,
  \<^verbatim>\<open>SupportsGPUParticles(Platform)\<close> returns true and
  \<^verbatim>\<open>RHISupportsGPUParticles()\<close> returns false.
\<close>

theorem desktop_without_Texture3D:
  "\<not> GSupportsTexture3D (rhi s) \<Longrightarrow> IsPCPlatform Q Platform \<Longrightarrow>
   fst (SupportsGPUParticles Q Platform s) \<and> \<not> fst (RHISupportsGPUParticles s)"
  by (simp add: SupportsGPUParticles_value RHISupportsGPUParticles_value)

theorem desktop_without_Texture3D_witness:
  "\<not> GSupportsTexture3D
       (rhi (fresh_state\<lparr>rhi := full_rhi\<lparr>GSupportsTexture3D := False\<rparr>\<rparr>))
   \<and> IsPCPlatform desktop_only 0
   \<and> \<not> IsFeatureLevelSupported desktop_only 0 ES3_1
   \<and> fst (SupportsGPUParticles desktop_only 0
         (fresh_state\<lparr>rhi := full_rhi\<lparr>GSupportsTexture3D := False\<rparr>\<rparr>))
   \<and> \<not> fst (RHISupportsGPUParticles
         (fresh_state\<lparr>rhi := full_rhi\<lparr>GSupportsTexture3D := False\<rparr>\<rparr>))"
  using desktop_without_Texture3D
    [of "fresh_state\<lparr>rhi := full_rhi\<lparr>GSupportsTexture3D := False\<rparr>\<rparr>" desktop_only 0]
  by (simp add: desktop_only_def)

text \<open>
  C9. Neither \<^verbatim>\<open>SupportsGPUParticles(Platform)\<close> nor
  \<^verbatim>\<open>RHISupportsGPUParticles()\<close> changes the state, a second call returns
  what the first one did, and two calls with the same platform in states with
  the same console variables and RHI globals return the same result.
\<close>

theorem gate_side_effect_free:
  assumes "cvars s' = cvars s" and "rhi s' = rhi s"
  shows "snd (SupportsGPUParticles Q Platform s) = s
    \<and> snd (RHISupportsGPUParticles s) = s
    \<and> fst (SupportsGPUParticles Q Platform (snd (SupportsGPUParticles Q Platform s)))
        = fst (SupportsGPUParticles Q Platform s)
    \<and> fst (RHISupportsGPUParticles (snd (RHISupportsGPUParticles s)))
        = fst (RHISupportsGPUParticles s)
    \<and> fst (SupportsGPUParticles Q Platform s') = fst (SupportsGPUParticles Q Platform s)
    \<and> fst (RHISupportsGPUParticles s') = fst (RHISupportsGPUParticles s)"
  using assms
  by (simp add: SupportsGPUParticles_state RHISupportsGPUParticles_state
      SupportsGPUParticles_value RHISupportsGPUParticles_value)

theorem gate_side_effect_free_witness:
  "cvars (snd (OnDestroy fresh_state)) = cvars fresh_state
   \<and> rhi (snd (OnDestroy fresh_state)) = rhi fresh_state
   \<and> snd (OnDestroy fresh_state) \<noteq> fresh_state
   \<and> snd (SupportsGPUParticles desktop_only 1 fresh_state) = fresh_state
   \<and> snd (RHISupportsGPUParticles fresh_state) = fresh_state
   \<and> fst (SupportsGPUParticles desktop_only 1 (snd (OnDestroy fresh_state)))
       = fst (SupportsGPUParticles desktop_only 1 fresh_state)
   \<and> fst (RHISupportsGPUParticles (snd (OnDestroy fresh_state)))
       = fst (RHISupportsGPUParticles fresh_state)
   \<and> \<not> fst (SupportsGPUParticles desktop_only 1 fresh_state)
   \<and> fst (RHISupportsGPUParticles fresh_state)"
proof -
  have c: "cvars (snd (OnDestroy fresh_state)) = cvars fresh_state"
    by (simp add: OnDestroy_def)
  have r: "rhi (snd (OnDestroy fresh_state)) = rhi fresh_state"
    by (simp add: OnDestroy_def)
  have d: "snd (OnDestroy fresh_state) \<noteq> fresh_state"
  proof
    assume "snd (OnDestroy fresh_state) = fresh_state"
    then have "bIsPendingKill (self (snd (OnDestroy fresh_state)))
      = bIsPendingKill (self fresh_state)"
      by simp
    then show False
      by (simp add: OnDestroy_def fresh_state_def)
  qed
  have v: "\<not> fst (SupportsGPUParticles desktop_only 1 fresh_state)"
    by (simp add: SupportsGPUParticles_value desktop_only_def)
  have w: "fst (RHISupportsGPUParticles fresh_state)"
    by (simp add: RHISupportsGPUParticles_value fresh_state_def full_rhi_def
        default_cvars_def)
  from gate_side_effect_free [OF c r, of desktop_only 1] c r d v w
  show ?thesis by simp
qed

section \<open>Properties of the instance\<close>









text \<open>
  C6. The default \<^verbatim>\<open>GetInterface(InName)\<close> returns \<^verbatim>\<open>nullptr\<close> for every
  name and leaves the state as it was.
\<close>

theorem GetInterface_default: "GetInterface InName s = (None, s)"
  by (simp add: GetInterface_def)

text \<open>
  C8. The default \<^verbatim>\<open>DestroyGPUSimulation()\<close> does nothing: the state after it,
  the instance with its pending-kill flag included, is the state before it.
\<close>

theorem DestroyGPUSimulation_default:
  "snd (DestroyGPUSimulation s) = s
   \<and> self (snd (DestroyGPUSimulation s)) = self s
   \<and> fst (IsPendingKill (snd (DestroyGPUSimulation s))) = fst (IsPendingKill s)"
  by (simp add: DestroyGPUSimulation_def)

text \<open>
  C10. Calling the base \<^verbatim>\<open>OnDestroy()\<close> twice leaves the state that calling
  it once leaves: \<^verbatim>\<open>bIsPendingKill\<close> is true, and the subclass's members and
  the globals are those of the state before the first call.
\<close>

theorem OnDestroy_idempotent:
  "snd (OnDestroy (snd (OnDestroy s))) = snd (OnDestroy s)
   \<and> bIsPendingKill (self (snd (OnDestroy s)))
   \<and> FFXSystemInterface.more (self (snd (OnDestroy s))) = FFXSystemInterface.more (self s)
   \<and> cvars (snd (OnDestroy s)) = cvars s
   \<and> rhi (snd (OnDestroy s)) = rhi s
   \<and> CreateCustomFXDelegates (snd (OnDestroy s)) = CreateCustomFXDelegates s"
  by (simp add: OnDestroy_def)

section \<open>Properties of creation\<close>

lemma land_gate_state:
  "snd (land (SupportsGPUParticles Q Platform) RHISupportsGPUParticles s) = s"
  by (cases "SupportsGPUParticles Q Platform s")
    (use SupportsGPUParticles_state [of Q Platform s] in
      \<open>simp add: land_def RHISupportsGPUParticles_state\<close>)

lemma land_gate_value:
  "fst (land (SupportsGPUParticles Q Platform) RHISupportsGPUParticles s) =
     (fst (SupportsGPUParticles Q Platform s) \<and> fst (RHISupportsGPUParticles s))"
  by (cases "SupportsGPUParticles Q Platform s")
    (use SupportsGPUParticles_state [of Q Platform s] in \<open>auto simp add: land_def\<close>)

text \<open>
  C7. \<^verbatim>\<open>Create(InFeatureLevel, InShaderPlatform)\<close> never returns
  \<^verbatim>\<open>nullptr\<close>, and when no registered delegate matches and the capability
  gate fails it returns the disabled system.
\<close>

theorem Create_never_null:
  "fst (Create Q mgr fl sp s) \<noteq> None
   \<and> (custom_system (CreateCustomFXDelegates s) fl sp mgr = None
      \<and> \<not> (fst (SupportsGPUParticles Q sp s) \<and> fst (RHISupportsGPUParticles s))
      \<longrightarrow> fst (Create Q mgr fl sp s) = Some DisabledFXSystem)"
proof -
  obtain b t where g: "land (SupportsGPUParticles Q sp) RHISupportsGPUParticles s = (b, t)"
    by (cases "land (SupportsGPUParticles Q sp) RHISupportsGPUParticles s")
  have b: "b = (fst (SupportsGPUParticles Q sp s) \<and> fst (RHISupportsGPUParticles s))"
    using land_gate_value [of Q sp s] g by simp
  show ?thesis
    using g b by (auto simp add: Create_def split: option.splits)
qed

theorem Create_never_null_witness:
  "custom_system
       (CreateCustomFXDelegates
          (fresh_state\<lparr>CreateCustomFXDelegates := [(''Niagara'', \<lambda>l p m. None)]\<rparr>))
       ES3_1 1 None = None
   \<and> \<not> fst (SupportsGPUParticles desktop_only 1
         (fresh_state\<lparr>CreateCustomFXDelegates := [(''Niagara'', \<lambda>l p m. None)]\<rparr>))
   \<and> fst (Create desktop_only None ES3_1 1
         (fresh_state\<lparr>CreateCustomFXDelegates := [(''Niagara'', \<lambda>l p m. None)]\<rparr>))
       = Some DisabledFXSystem"
proof -
  let ?s = "fresh_state\<lparr>CreateCustomFXDelegates := [(''Niagara'', \<lambda>l p m. None)]\<rparr>"
  have a: "custom_system (CreateCustomFXDelegates ?s) ES3_1 1 None = None"
    by simp
  have b: "\<not> fst (SupportsGPUParticles desktop_only 1 ?s)"
    by (simp add: SupportsGPUParticles_value desktop_only_def)
  from Create_never_null [of desktop_only None ES3_1 1 ?s] a b
  show ?thesis by simp
qed

end
